theory Spec2Isabelle
  imports Complex_Main
begin

section \<open>Shared vocabulary: statuses, events, Python exceptions\<close>

text \<open>
  \<^verbatim>\<open>supervaizer.lifecycle\<close> is imported by \<^verbatim>\<open>case.py\<close> and \<^verbatim>\<open>agent.py\<close>
  (\<^verbatim>\<open>EntityStatus\<close>, \<^verbatim>\<open>EntityEvents\<close>, \<^verbatim>\<open>EntityLifecycle\<close>); the members used
  by the callers are the ones listed in the data model.
\<close>

datatype EntityStatus =
  STOPPED | IN_PROGRESS | AWAITING | COMPLETED | FAILED | CANCELLED | CANCELLING

datatype EntityEvents =
  START_WORK | INPUT_REQUESTED | INPUT_RECEIVED | SUCCESSFULLY_DONE
  | FAILED_EVENT | CANCEL_REQUESTED | CANCELLED_EVENT

text \<open>
  Python exceptions as values. \<open>BaseOnly\<close> stands for the classes that derive from
  \<^verbatim>\<open>BaseException\<close> but not from \<^verbatim>\<open>Exception\<close> (\<^verbatim>\<open>KeyboardInterrupt\<close>,
  \<^verbatim>\<open>SystemExit\<close>): an \<^verbatim>\<open>except Exception\<close> clause lets them through.
\<close>

datatype py_error =
  TransitionError EntityStatus EntityEvents
  | NotImplementedError string
  | TypeError string
  | KeyError string
  | ValueError string
  | ImportError string
  | ValidationError string
  | OtherException string
  | BaseOnly string

fun is_Exception :: "py_error \<Rightarrow> bool" where
  "is_Exception (BaseOnly _) = False"
| "is_Exception _ = True"

section \<open>Lifecycle engine\<close>

text \<open>Modelled from the spec: \<^verbatim>\<open>supervaizer/lifecycle.py\<close> is not among the
  sources; only its callers are. The table is the seven-row table of the design section, and
  \<open>apply_event\<close> is the contract \<^verbatim>\<open>apply(entity_with_status, event) -> new_status\<close>:
  a pair absent from the table fails with a \<open>TransitionError\<close> naming both inputs.
\<close>

definition transition_table :: "((EntityStatus \<times> EntityEvents) \<times> EntityStatus) list" where
  "transition_table =
    [((STOPPED, START_WORK), IN_PROGRESS),
     ((IN_PROGRESS, INPUT_REQUESTED), AWAITING),
     ((AWAITING, INPUT_RECEIVED), IN_PROGRESS),
     ((IN_PROGRESS, SUCCESSFULLY_DONE), COMPLETED),
     ((IN_PROGRESS, FAILED_EVENT), FAILED),
     ((IN_PROGRESS, CANCEL_REQUESTED), CANCELLING),
     ((CANCELLING, CANCELLED_EVENT), CANCELLED)]"

definition apply_event :: "EntityStatus \<Rightarrow> EntityEvents \<Rightarrow> py_error + EntityStatus" where
  "apply_event s e =
     (case map_of transition_table (s, e) of
        None \<Rightarrow> Inl (TransitionError s e)
      | Some s' \<Rightarrow> Inr s')"

section \<open>Cases and their update log (\<^verbatim>\<open>supervaizer/case.py\<close>)\<close>

text \<open>
  A \<^verbatim>\<open>Dict[str, Any]\<close> payload is kept as an association list of strings. Costs are
  Python floats; they are modelled as reals, so rounding is not part of the model.
\<close>

type_synonym json = "(string \<times> string) list"

record CaseNodeUpdate =
  u_index :: "int option"
  u_cost :: "real option"
  u_name :: "string option"
  u_payload :: "json option"
  u_is_final :: bool
  u_question :: "json option"

text \<open>\<^verbatim>\<open>CaseNodeUpdate.__init__\<close>, with the defaults of its signature filled in by the caller.\<close>

definition CaseNodeUpdate_init ::
  "real option \<Rightarrow> string option \<Rightarrow> json option \<Rightarrow> bool \<Rightarrow> json option \<Rightarrow> int option
   \<Rightarrow> CaseNodeUpdate" where
  "CaseNodeUpdate_init cost name payload is_final question index =
     \<lparr>u_index = index, u_cost = cost, u_name = name, u_payload = payload,
      u_is_final = is_final, u_question = question\<rparr>"

datatype CaseNoteType =
  CHAT | TRIGGER | NOTIFICATION | VALIDATION | DELIVERY | ERROR | WARNING | INFO

record CaseNode =
  n_name :: string
  n_description :: string
  n_type :: CaseNoteType

text \<open>
  The Account collaborator (\<^verbatim>\<open>supervaizer/account.py\<close>, an external interface): it is
  handed a request and either returns or raises. What it was sent is logged in the world.
  An update is handed over as the value it has at the time of the call.
\<close>

datatype account_msg =
  SendStartCase string
  | SendUpdateCase string CaseNodeUpdate
  | SendEvent string string

type_synonym Account = "account_msg \<Rightarrow> py_error option"

text \<open>
  Python passes \<^verbatim>\<open>CaseNodeUpdate\<close> objects by reference and \<^verbatim>\<open>Case.updates\<close> holds
  references, so the objects live in a store and the list holds their addresses.
\<close>

type_synonym ref = nat

record Case =
  c_id :: string
  c_job_id :: string
  c_name :: string
  c_account :: Account
  c_description :: string
  c_status :: EntityStatus
  c_nodes :: "CaseNode list"
  c_updates :: "ref list"
  c_total_cost :: real
  c_final_delivery :: "json option"
  c_finished_at :: "nat option"

record case_world =
  cw_case :: Case
  cw_heap :: "ref \<Rightarrow> CaseNodeUpdate"
  cw_sent :: "account_msg list"

definition case_ref :: "Case \<Rightarrow> string" where
  "case_ref c = c_job_id c @ ''-'' @ c_id c"

text \<open>\<^verbatim>\<open>update.cost or 0.0\<close>: a missing cost and a zero cost both give zero.\<close>

definition cost_or_zero :: "real option \<Rightarrow> real" where
  "cost_or_zero x = (case x of None \<Rightarrow> 0 | Some v \<Rightarrow> if v = 0 then 0 else v)"

definition calculated_cost :: "(ref \<Rightarrow> CaseNodeUpdate) \<Rightarrow> Case \<Rightarrow> real" where
  "calculated_cost h c = foldl (\<lambda>acc r. acc + cost_or_zero (u_cost (h r))) 0 (c_updates c)"

definition send_update_case ::
  "Case \<Rightarrow> CaseNodeUpdate \<Rightarrow> account_msg list \<Rightarrow> py_error option \<times> account_msg list" where
  "send_update_case c u sent =
     (let m = SendUpdateCase (case_ref c) u
      in case c_account c m of
           Some e \<Rightarrow> (Some e, sent)
         | None \<Rightarrow> (None, sent @ [m]))"

definition send_start_case ::
  "Account \<Rightarrow> Case \<Rightarrow> account_msg list \<Rightarrow> py_error option \<times> account_msg list" where
  "send_start_case account c sent =
     (let m = SendStartCase (case_ref c)
      in case account m of
           Some e \<Rightarrow> (Some e, sent)
         | None \<Rightarrow> (None, sent @ [m]))"

text \<open>Modelled from the spec: \<^verbatim>\<open>EntityLifecycle.handle_event\<close> (in the absent
  \<^verbatim>\<open>lifecycle.py\<close>) applies the table to the entity's status field in place and fails
  with \<open>TransitionError\<close> on a pair that is not in the table.
\<close>

definition handle_event :: "Case \<Rightarrow> EntityEvents \<Rightarrow> py_error + Case" where
  "handle_event c ev =
     (case apply_event (c_status c) ev of
        Inl e \<Rightarrow> Inl e
      | Inr s' \<Rightarrow> Inr (c\<lparr>c_status := s'\<rparr>))"

text \<open>
  \<^verbatim>\<open>Case.update\<close>: the index is written into the caller's object, the Account is
  notified, and only then is the reference appended. The first component of the result
  is the exception that left the method, if any.
\<close>

definition update :: "ref \<Rightarrow> case_world \<Rightarrow> py_error option \<times> case_world" where
  "update r w =
     (let c = cw_case w;
          h = (cw_heap w)(r := (cw_heap w r)\<lparr>u_index := Some (int (length (c_updates c)) + 1)\<rparr>)
      in case send_update_case c (h r) (cw_sent w) of
           (Some e, sent) \<Rightarrow> (Some e, w\<lparr>cw_heap := h, cw_sent := sent\<rparr>)
         | (None, sent) \<Rightarrow>
             (None, w\<lparr>cw_case := c\<lparr>c_updates := c_updates c @ [r]\<rparr>,
                       cw_heap := h, cw_sent := sent\<rparr>))"

text \<open>\<^verbatim>\<open>Case.human_input\<close>: the same steps (the message is only logged).\<close>

definition human_input :: "ref \<Rightarrow> string \<Rightarrow> case_world \<Rightarrow> py_error option \<times> case_world" where
  "human_input r message w =
     (let c = cw_case w;
          h = (cw_heap w)(r := (cw_heap w r)\<lparr>u_index := Some (int (length (c_updates c)) + 1)\<rparr>)
      in case send_update_case c (h r) (cw_sent w) of
           (Some e, sent) \<Rightarrow> (Some e, w\<lparr>cw_heap := h, cw_sent := sent\<rparr>)
         | (None, sent) \<Rightarrow>
             (None, w\<lparr>cw_case := c\<lparr>c_updates := c_updates c @ [r]\<rparr>,
                       cw_heap := h, cw_sent := sent\<rparr>))"

definition resume :: "case_world \<Rightarrow> py_error option \<times> case_world" where
  "resume w =
     (case handle_event (cw_case w) INPUT_RECEIVED of
        Inl e \<Rightarrow> (Some e, w)
      | Inr c' \<Rightarrow> (None, w\<lparr>cw_case := c'\<rparr>))"

text \<open>
  \<^verbatim>\<open>Case.close\<close>. The test \<^verbatim>\<open>if final_cost:\<close> is Python truthiness: \<^verbatim>\<open>None\<close> and
  \<^verbatim>\<open>0.0\<close> are both false. \<open>now\<close> is the value of \<^verbatim>\<open>datetime.now()\<close>.
\<close>

definition close :: "json \<Rightarrow> real option \<Rightarrow> nat \<Rightarrow> case_world \<Rightarrow> py_error option \<times> case_world" where
  "close case_result final_cost now w =
     (let c = cw_case w;
          c1 = c\<lparr>c_total_cost :=
                  (case final_cost of
                     Some x \<Rightarrow> if x \<noteq> 0 then x else calculated_cost (cw_heap w) c
                   | None \<Rightarrow> calculated_cost (cw_heap w) c)\<rparr>
      in case handle_event c1 SUCCESSFULLY_DONE of
           Inl e \<Rightarrow> (Some e, w\<lparr>cw_case := c1\<rparr>)
         | Inr c2 \<Rightarrow>
             (let upd = (CaseNodeUpdate_init None None (Some case_result) True None None)
                          \<lparr>u_index := Some (int (length (c_updates c2)) + 1)\<rparr>;
                  c3 = c2\<lparr>c_final_delivery := Some case_result, c_finished_at := Some now\<rparr>
              in case send_update_case c3 upd (cw_sent w) of
                   (err, sent) \<Rightarrow> (err, w\<lparr>cw_case := c3, cw_sent := sent\<rparr>)))"

text \<open>
  \<^verbatim>\<open>Case.start\<close>: \<open>fresh_id\<close> is the value of \<^verbatim>\<open>shortuuid.uuid()\<close>; \<^verbatim>\<open>case_id or ...\<close>
  takes it when the given id is missing or empty. The fields left out of the constructor
  call take the defaults of \<^verbatim>\<open>CaseModel\<close>.
\<close>

definition start ::
  "string \<Rightarrow> string \<Rightarrow> Account \<Rightarrow> string \<Rightarrow> CaseNode list \<Rightarrow> string option \<Rightarrow> string
   \<Rightarrow> (ref \<Rightarrow> CaseNodeUpdate) \<Rightarrow> account_msg list \<Rightarrow> py_error + case_world" where
  "start job_id name account description nodes case_id fresh_id h sent =
     (let c = \<lparr>c_id = (case case_id of None \<Rightarrow> fresh_id
                                     | Some i \<Rightarrow> if i = [] then fresh_id else i),
               c_job_id = job_id, c_name = name, c_account = account,
               c_description = description, c_status = STOPPED, c_nodes = nodes,
               c_updates = [], c_total_cost = 0, c_final_delivery = None,
               c_finished_at = None\<rparr>
      in case handle_event c START_WORK of
           Inl e \<Rightarrow> Inl e
         | Inr c' \<Rightarrow>
             (case send_start_case account c' sent of
                (Some e, _) \<Rightarrow> Inl e
              | (None, sent') \<Rightarrow> Inr \<lparr>cw_case = c', cw_heap = h, cw_sent = sent'\<rparr>))"

text \<open>
  A caller's run of appends on one Case: each step is \<^verbatim>\<open>update\<close> or \<^verbatim>\<open>human_input\<close>
  on an object of the store; a step whose Account call raises leaves the list as it was
  and the caller goes on with the next step.
\<close>

datatype case_op = Update ref | HumanInput ref string

fun op_ref :: "case_op \<Rightarrow> ref" where
  "op_ref (Update r) = r"
| "op_ref (HumanInput r _) = r"

fun do_op :: "case_op \<Rightarrow> case_world \<Rightarrow> case_world" where
  "do_op (Update r) w = snd (update r w)"
| "do_op (HumanInput r m) w = snd (human_input r m w)"

definition run_ops :: "case_op list \<Rightarrow> case_world \<Rightarrow> case_world" where
  "run_ops ops w = foldl (\<lambda>w' x. do_op x w') w ops"

text \<open>The update log is well indexed: position \<open>i\<close> holds an object with index \<open>i + 1\<close>.\<close>

definition indices_ok :: "case_world \<Rightarrow> bool" where
  "indices_ok w =
     (\<forall>i < length (c_updates (cw_case w)).
        u_index (cw_heap w (c_updates (cw_case w) ! i)) = Some (int i + 1))"

section \<open>Method registry (\<^verbatim>\<open>AgentMethodsModel\<close> in \<^verbatim>\<open>agent.py\<close>)\<close>

text \<open>
  The validator calls \<^verbatim>\<open>re.match(r"^[a-z0-9]+(?:-[a-z0-9]+)*$", key)\<close>. Regular
  expressions are matched by derivatives; \<open>matches\<close> decides whether the whole string
  is in the language.
\<close>

datatype rexp =
  Zero | One | Lit char | Range char char | Alt rexp rexp | Seq rexp rexp | Star rexp

fun nullable :: "rexp \<Rightarrow> bool" where
  "nullable Zero = False"
| "nullable One = True"
| "nullable (Lit _) = False"
| "nullable (Range _ _) = False"
| "nullable (Alt r s) = (nullable r \<or> nullable s)"
| "nullable (Seq r s) = (nullable r \<and> nullable s)"
| "nullable (Star _) = True"

fun deriv :: "char \<Rightarrow> rexp \<Rightarrow> rexp" where
  "deriv c Zero = Zero"
| "deriv c One = Zero"
| "deriv c (Lit d) = (if c = d then One else Zero)"
| "deriv c (Range lo hi) =
     (if (of_char lo :: nat) \<le> of_char c \<and> (of_char c :: nat) \<le> of_char hi then One else Zero)"
| "deriv c (Alt r s) = Alt (deriv c r) (deriv c s)"
| "deriv c (Seq r s) =
     (if nullable r then Alt (Seq (deriv c r) s) (deriv c s) else Seq (deriv c r) s)"
| "deriv c (Star r) = Seq (deriv c r) (Star r)"

fun matches :: "rexp \<Rightarrow> string \<Rightarrow> bool" where
  "matches r [] = nullable r"
| "matches r (c # cs) = matches (deriv c r) cs"

definition Plus :: "rexp \<Rightarrow> rexp" where
  "Plus r = Seq r (Star r)"

definition lower_or_digit :: rexp where
  "lower_or_digit = Alt (Range CHR ''a'' CHR ''z'') (Range CHR ''0'' CHR ''9'')"

text \<open>The body of the pattern, \<^verbatim>\<open>[a-z0-9]+(?:-[a-z0-9]+)*\<close>: the slug grammar itself.\<close>

definition slug_pattern :: rexp where
  "slug_pattern = Seq (Plus lower_or_digit) (Star (Seq (Lit CHR ''-'') (Plus lower_or_digit)))"

definition newline :: char where
  "newline = CHR 0x0A"

text \<open>
  \<^verbatim>\<open>re.match("^" + r + "$", key)\<close> without flags: \<^verbatim>\<open>^\<close> is the start of the string, and
  \<^verbatim>\<open>$\<close> matches at the end of the string or just before a newline that is the last
  character of the string.
\<close>

definition re_match_anchored :: "rexp \<Rightarrow> string \<Rightarrow> bool" where
  "re_match_anchored r key =
     (matches r key \<or> (key \<noteq> [] \<and> last key = newline \<and> matches r (butlast key)))"

definition quoted :: "string \<Rightarrow> string" where
  "quoted k = [CHR 0x27] @ k @ [CHR 0x27]"

definition not_a_slug_message :: "string \<Rightarrow> string" where
  "not_a_slug_message key =
     ''Custom method key '' @ quoted key @ '' is not a valid slug. ''
     @ ''Keys must contain only lowercase letters, numbers, and hyphens, ''
     @ ''and cannot start or end with a hyphen. ''
     @ ''Examples: '' @ quoted ''backup'' @ '', '' @ quoted ''health-check'' @ '', ''
     @ quoted ''sync-data''"

definition too_long_message :: "string \<Rightarrow> string" where
  "too_long_message key =
     ''Custom method key '' @ quoted key @ '' is too long (max 50 characters)''"

text \<open>The loop over \<^verbatim>\<open>value.keys()\<close>: the first key that fails a check raises.\<close>

fun check_custom_keys :: "string list \<Rightarrow> py_error option" where
  "check_custom_keys [] = None"
| "check_custom_keys (key # keys) =
     (if \<not> re_match_anchored slug_pattern key then Some (ValueError (not_a_slug_message key))
      else if length key > 50 then Some (ValueError (too_long_message key))
      else check_custom_keys keys)"

text \<open>
  Dispatch arguments: the values that \<^verbatim>\<open>job_start\<close> puts into the keyword dictionary.
\<close>

record JobContext =
  ctx_workspace_id :: string
  ctx_job_id :: string
  ctx_started_by :: string
  ctx_started_at :: nat
  ctx_mission_id :: string
  ctx_mission_name :: string
  ctx_mission_context :: "json option"
  ctx_job_instructions :: "string option"

datatype pyval =
  PStr string
  | PFields json
  | PContext JobContext
  | PAgentParameters "json option"

type_synonym params = "string \<rightharpoonup> pyval"

record AgentMethod =
  am_name :: string
  am_method :: string
  am_params :: "params option"
  am_fields :: "json list option"
  am_description :: "string option"
  am_is_async :: bool

text \<open>A dictionary keeps insertion order, which decides the first key to be rejected.\<close>

type_synonym custom_methods = "(string \<times> AgentMethod) list"

record AgentMethods =
  m_job_start :: AgentMethod
  m_job_stop :: AgentMethod
  m_job_status :: AgentMethod
  m_chat :: "AgentMethod option"
  m_custom :: "custom_methods option"

text \<open>\<^verbatim>\<open>if value:\<close> is false for \<^verbatim>\<open>None\<close> and for the empty dictionary.\<close>

definition validate_custom_method_keys :: "custom_methods option \<Rightarrow> py_error + custom_methods option" where
  "validate_custom_method_keys v =
     (case v of
        None \<Rightarrow> Inr v
      | Some d \<Rightarrow>
          if d = [] then Inr v
          else (case check_custom_keys (map fst d) of
                  Some e \<Rightarrow> Inl e
                | None \<Rightarrow> Inr v))"

text \<open>
  Construction of the registry from well-typed field values: pydantic runs the field
  validator and reports a \<^verbatim>\<open>ValueError\<close> raised by it as a \<^verbatim>\<open>ValidationError\<close> that
  carries the validator's message.
\<close>

definition AgentMethodsModel_init ::
  "AgentMethod \<Rightarrow> AgentMethod \<Rightarrow> AgentMethod \<Rightarrow> AgentMethod option \<Rightarrow> custom_methods option
   \<Rightarrow> py_error + AgentMethods" where
  "AgentMethodsModel_init job_start job_stop job_status chat custom =
     (case validate_custom_method_keys custom of
        Inl (ValueError msg) \<Rightarrow> Inl (ValidationError msg)
      | Inl e \<Rightarrow> Inl e
      | Inr v \<Rightarrow>
          Inr \<lparr>m_job_start = job_start, m_job_stop = job_stop, m_job_status = job_status,
               m_chat = chat, m_custom = v\<rparr>)"

section \<open>Jobs and dispatch (\<^verbatim>\<open>Agent._execute\<close>, \<^verbatim>\<open>Agent.job_start\<close>)\<close>

record JobResponse =
  jr_job_id :: string
  jr_status :: EntityStatus
  jr_message :: string
  jr_payload :: "json option"
  jr_error :: "py_error option"

record Job =
  j_id :: string
  j_agent_name :: string
  j_status :: EntityStatus
  j_job_context :: JobContext
  j_responses :: "JobResponse list"
  j_agent_parameters :: "json option"

text \<open>Modelled from the spec: \<^verbatim>\<open>Job.add_response\<close> (in
  \<^verbatim>\<open>supervaizer/job.py\<close>, which is not among the sources) appends the response to the Job's ordered, append-only log.
\<close>

definition add_response :: "JobResponse \<Rightarrow> Job \<Rightarrow> Job" where
  "add_response r j = j\<lparr>j_responses := j_responses j @ [r]\<rparr>"

record Server =
  supervisor_account :: "Account option"

text \<open>What calling a resolved method with the keyword arguments does.\<close>

datatype call_result =
  Raises py_error
  | ReturnsJobResponse JobResponse
  | ReturnsOther string

text \<open>
  The surroundings of a dispatch, taken as parameters: \<open>rt_modules\<close> resolves a dotted
  path to a callable (the \<^verbatim>\<open>rsplit\<close>, \<^verbatim>\<open>__import__\<close> and \<^verbatim>\<open>getattr\<close> steps, any of
  which may raise); \<open>rt_service_job_finished\<close> is the external job-finished hook of
  \<^verbatim>\<open>supervaizer/job_service.py\<close>, which returns or raises; \<open>rt_str\<close> is Python's
  \<^verbatim>\<open>str\<close> on an exception.
\<close>

record runtime =
  rt_modules :: "string \<Rightarrow> py_error + (params \<Rightarrow> call_result)"
  rt_service_job_finished :: "Job \<Rightarrow> py_error option"
  rt_str :: "py_error \<Rightarrow> string"

text \<open>
  The world of a dispatch: the Job (mutated in place by the code), what the Account was
  sent, the paths of the method bodies that were entered, and the Jobs the job-finished
  hook was called with.
\<close>

record job_world =
  jw_job :: Job
  jw_sent :: "account_msg list"
  jw_invoked :: "string list"
  jw_finished :: "Job list"

definition func_name :: "string \<Rightarrow> string" where
  "func_name action = rev (takeWhile (\<lambda>c. c \<noteq> CHR ''.'') (rev action))"

definition execute ::
  "runtime \<Rightarrow> string \<Rightarrow> params \<Rightarrow> string list \<Rightarrow> (py_error + JobResponse) \<times> string list" where
  "execute rt action ps invoked =
     (case rt_modules rt action of
        Inl e \<Rightarrow> (Inl e, invoked)
      | Inr method \<Rightarrow>
          (case method ps of
             Raises e \<Rightarrow> (Inl e, invoked @ [action])
           | ReturnsJobResponse r \<Rightarrow> (Inr r, invoked @ [action])
           | ReturnsOther ty \<Rightarrow>
               (Inl (TypeError (''Method '' @ func_name action
                       @ '' must return a JobResponse object, got '' @ ty)),
                invoked @ [action])))"

text \<open>The event sent before anything else; a missing Account is skipped with a warning.\<close>

definition send_start_confirmation :: "Server \<Rightarrow> job_world \<Rightarrow> py_error option \<times> job_world" where
  "send_start_confirmation server w =
     (case supervisor_account server of
        None \<Rightarrow> (None, w)
      | Some account \<Rightarrow>
          (let m = SendEvent (j_id (jw_job w)) ''JobStartConfirmationEvent''
           in case account m of
                Some e \<Rightarrow> (Some e, w)
              | None \<Rightarrow> (None, w\<lparr>jw_sent := jw_sent w @ [m]\<rparr>)))"

text \<open>
  \<^verbatim>\<open>self.methods.job_start\<close> or \<^verbatim>\<open>self.methods.custom[method_name]\<close>: subscripting
  \<^verbatim>\<open>None\<close> is a \<^verbatim>\<open>TypeError\<close>, a missing key a \<^verbatim>\<open>KeyError\<close>.
\<close>

definition lookup_action :: "AgentMethods \<Rightarrow> string \<Rightarrow> py_error + AgentMethod" where
  "lookup_action methods method_name =
     (if method_name = ''job_start'' then Inr (m_job_start methods)
      else (case m_custom methods of
              None \<Rightarrow> Inl (TypeError ''NoneType object is not subscriptable'')
            | Some d \<Rightarrow>
                (case map_of d method_name of
                   None \<Rightarrow> Inl (KeyError method_name)
                 | Some a \<Rightarrow> Inr a)))"

text \<open>
  The merged keyword arguments: dictionary union, the right operand winning on a shared
  key. \<^verbatim>\<open>action.params or {}\<close> is the empty dictionary when the parameters are missing.
\<close>

definition merged_params :: "AgentMethod \<Rightarrow> json \<Rightarrow> JobContext \<Rightarrow> Job \<Rightarrow> params" where
  "merged_params action job_fields context job =
     (case am_params action of None \<Rightarrow> Map.empty | Some p \<Rightarrow> p)
       ++ [''fields'' \<mapsto> PFields job_fields]
       ++ [''context'' \<mapsto> PContext context]
       ++ [''agent_parameters'' \<mapsto> PAgentParameters (j_agent_parameters job)]"

definition starting_response :: "Job \<Rightarrow> JobResponse" where
  "starting_response job =
     \<lparr>jr_job_id = j_id job, jr_status = IN_PROGRESS,
      jr_message = ''Starting job execution'', jr_payload = None, jr_error = None\<rparr>"

definition failed_response :: "runtime \<Rightarrow> Job \<Rightarrow> py_error \<Rightarrow> JobResponse" where
  "failed_response rt job e =
     \<lparr>jr_job_id = j_id job, jr_status = FAILED,
      jr_message = ''Job execution failed: '' @ rt_str rt e, jr_payload = None,
      jr_error = Some e\<rparr>"

text \<open>
  The body of the \<^verbatim>\<open>try\<close> block. The guard reads \<^verbatim>\<open>self.methods.job_start.is_async\<close>,
  whichever descriptor is being dispatched.
\<close>

definition job_start_try ::
  "runtime \<Rightarrow> AgentMethods \<Rightarrow> string \<Rightarrow> params \<Rightarrow> job_world \<Rightarrow> py_error option \<times> job_world" where
  "job_start_try rt methods action_method ps w =
     (if am_is_async (m_job_start methods)
      then (Some (NotImplementedError
                    ''[Agent job_start] Async job execution is not implemented''), w)
      else (case execute rt action_method ps (jw_invoked w) of
              (Inl e, entered) \<Rightarrow> (Some e, w\<lparr>jw_invoked := entered\<rparr>)
            | (Inr job_response, entered) \<Rightarrow>
                (let w1 = w\<lparr>jw_invoked := entered\<rparr>
                 in if jr_status job_response = COMPLETED
                       \<or> jr_status job_response = FAILED
                       \<or> jr_status job_response = CANCELLED
                       \<or> jr_status job_response = CANCELLING
                    then (let job' = add_response job_response (jw_job w1)
                          in (rt_service_job_finished rt job',
                              w1\<lparr>jw_job := job', jw_finished := jw_finished w1 @ [job']\<rparr>))
                    else if jr_status job_response = AWAITING
                    then (None, w1\<lparr>jw_job := add_response job_response (jw_job w1)\<rparr>)
                    else (None, w1))))"

text \<open>
  \<^verbatim>\<open>Agent.job_start\<close>. The first component is the exception that leaves the method, if
  any; otherwise the method returns the Job of the resulting world. The handler is
  \<^verbatim>\<open>except Exception\<close>: it records a failed response and re-raises.
\<close>

definition job_start ::
  "runtime \<Rightarrow> AgentMethods \<Rightarrow> Server \<Rightarrow> string \<Rightarrow> json \<Rightarrow> JobContext \<Rightarrow> job_world
   \<Rightarrow> py_error option \<times> job_world" where
  "job_start rt methods server method_name job_fields context w =
     (case send_start_confirmation server w of
        (Some e, w0) \<Rightarrow> (Some e, w0)
      | (None, w0) \<Rightarrow>
          (let w1 = w0\<lparr>jw_job := add_response (starting_response (jw_job w0)) (jw_job w0)\<rparr>
           in case lookup_action methods method_name of
                Inl e \<Rightarrow> (Some e, w1)
              | Inr action \<Rightarrow>
                  (case job_start_try rt methods (am_method action)
                          (merged_params action job_fields context (jw_job w1)) w1 of
                     (Some e, w2) \<Rightarrow>
                       if is_Exception e
                       then (Some e, w2\<lparr>jw_job :=
                               add_response (failed_response rt (jw_job w2) e) (jw_job w2)\<rparr>)
                       else (Some e, w2)
                   | (None, w2) \<Rightarrow> (None, w2))))"

section \<open>Parameter updates from the server (\<^verbatim>\<open>Agent.update_parameters_from_server\<close>)\<close>

record Parameter =
  p_name :: string
  p_value :: "string option"
  p_description :: "string option"
  p_is_environment :: bool

record param_update =
  pu_name :: string
  pu_value :: string
  pu_is_environment :: bool

type_synonym definitions = "string \<rightharpoonup> Parameter"

type_synonym environ = "string \<rightharpoonup> string"

fun is_ValidationError :: "py_error \<Rightarrow> bool" where
  "is_ValidationError (ValidationError _) = True"
| "is_ValidationError _ = False"

fun failed_with_ValidationError :: "py_error option \<Rightarrow> bool" where
  "failed_with_ValidationError (Some e) = is_ValidationError e"
| "failed_with_ValidationError None = False"

text \<open>Modelled from the spec: \<^verbatim>\<open>ParametersSetup.update_values_from_server\<close> (in
  \<^verbatim>\<open>supervaizer/parameter.py\<close>, which is not among the sources) takes the parsed sequence
  of \<open>{name, value, is_environment}\<close> records and, for each record, either updates the
  existing parameter definition's value or fails with a \<open>ValidationError\<close> if the name
  does not already exist; a record flagged \<open>is_environment\<close> additionally writes the
  value into the process environment under the name. Parameter definitions are updated
  only by a successful round trip, and a rejected payload leaves the existing values
  unchanged: a failure is the error alone, and the new definitions and environment are
  the result of a success. The spec does not give the text of the error; the unknown
  name stands for it.
\<close>

fun update_values_from_server ::
  "param_update list \<Rightarrow> definitions \<times> environ \<Rightarrow> py_error + definitions \<times> environ" where
  "update_values_from_server [] st = Inr st"
| "update_values_from_server (r # rs) (defs, env) =
     (case defs (pu_name r) of
        None \<Rightarrow> Inl (ValidationError (pu_name r))
      | Some p \<Rightarrow>
          update_values_from_server rs
            (defs(pu_name r \<mapsto> p\<lparr>p_value := Some (pu_value r)\<rparr>),
             if pu_is_environment r then env(pu_name r \<mapsto> pu_value r) else env))"

record Agent =
  a_name :: string
  a_methods :: AgentMethods
  a_parameters_setup :: "definitions option"
  a_server_encrypted_parameters :: "string option"

record param_world =
  pw_agent :: Agent
  pw_environ :: environ

text \<open>
  \<^verbatim>\<open>Agent.update_parameters_from_server\<close>. \<open>decode\<close> is \<^verbatim>\<open>server.decrypt\<close> followed by
  \<^verbatim>\<open>json.loads\<close>: it yields the records or raises. A missing or empty ciphertext, or a
  missing parameter setup, only logs. The method has no handler: what the helper raises
  leaves the method as it is.
\<close>

definition update_parameters_from_server ::
  "(string \<Rightarrow> py_error + param_update list) \<Rightarrow> string option \<Rightarrow> param_world
   \<Rightarrow> py_error option \<times> param_world" where
  "update_parameters_from_server decode server_encrypted_parameters w =
     (case (server_encrypted_parameters, a_parameters_setup (pw_agent w)) of
        (Some enc, Some defs) \<Rightarrow>
          if enc = [] then (None, w)
          else (let w1 = w\<lparr>pw_agent := (pw_agent w)\<lparr>a_server_encrypted_parameters := Some enc\<rparr>\<rparr>
                in case decode enc of
                     Inl e \<Rightarrow> (Some e, w1)
                   | Inr recs \<Rightarrow>
                       (case update_values_from_server recs (defs, pw_environ w1) of
                          Inl e \<Rightarrow> (Some e, w1)
                        | Inr (defs', env') \<Rightarrow>
                            (None, w1\<lparr>pw_agent := (pw_agent w1)\<lparr>a_parameters_setup := Some defs'\<rparr>,
                                       pw_environ := env'\<rparr>)))
      | _ \<Rightarrow> (None, w))"

subsection \<open>Concrete worlds used to evaluate the model\<close>

text \<open>An Account that never raises, a blank update object, and two small worlds.\<close>

definition quiet_account :: Account where
  "quiet_account m = None"

definition blank_update :: CaseNodeUpdate where
  "blank_update = CaseNodeUpdate_init None None None False None None"

definition example_case :: Case where
  "example_case =
     \<lparr>c_id = ''c1'', c_job_id = ''j1'', c_name = ''case'', c_account = quiet_account,
      c_description = '''', c_status = IN_PROGRESS, c_nodes = [], c_updates = [],
      c_total_cost = 0, c_final_delivery = None, c_finished_at = None\<rparr>"

definition example_world :: case_world where
  "example_world = \<lparr>cw_case = example_case, cw_heap = (\<lambda>r. blank_update), cw_sent = []\<rparr>"

definition cost5_world :: case_world where
  "cost5_world =
     \<lparr>cw_case = example_case\<lparr>c_updates := [0]\<rparr>,
      cw_heap = (\<lambda>r. CaseNodeUpdate_init (Some 5) None None False None (Some 1)),
      cw_sent = []\<rparr>"

text \<open>Methods, a Job and runtimes for evaluating a dispatch.\<close>

definition basic_method :: AgentMethod where
  "basic_method =
     \<lparr>am_name = ''test'', am_method = ''test.method'', am_params = None, am_fields = None,
      am_description = Some ''Test method'', am_is_async = False\<rparr>"

definition backup_method :: AgentMethod where
  "backup_method = basic_method\<lparr>am_name := ''backup'', am_method := ''tasks.backup'',
                                 am_is_async := True\<rparr>"

definition example_methods :: AgentMethods where
  "example_methods =
     \<lparr>m_job_start = basic_method, m_job_stop = basic_method, m_job_status = basic_method,
      m_chat = None, m_custom = Some [(''backup'', backup_method)]\<rparr>"

definition example_context :: JobContext where
  "example_context =
     \<lparr>ctx_workspace_id = ''test-workspace-id'', ctx_job_id = ''test-job-id'',
      ctx_started_by = ''test-started-by'', ctx_started_at = 0,
      ctx_mission_id = ''test-mission-id'', ctx_mission_name = ''test-mission-name'',
      ctx_mission_context = None, ctx_job_instructions = None\<rparr>"

definition example_job :: Job where
  "example_job =
     \<lparr>j_id = ''test-job-id'', j_agent_name = ''agentName'', j_status = STOPPED,
      j_job_context = example_context, j_responses = [], j_agent_parameters = None\<rparr>"

definition example_job_world :: job_world where
  "example_job_world = \<lparr>jw_job = example_job, jw_sent = [], jw_invoked = [], jw_finished = []\<rparr>"

definition no_account_server :: Server where
  "no_account_server = \<lparr>supervisor_account = None\<rparr>"

definition response_with :: "EntityStatus \<Rightarrow> JobResponse" where
  "response_with st =
     \<lparr>jr_job_id = ''test-job-id'', jr_status = st, jr_message = ''done'', jr_payload = None,
      jr_error = None\<rparr>"

text \<open>
  A runtime in which every path resolves: \<open>boom\<close> paths raise, the others return a
  response with the given status; the hook returns normally.
\<close>

definition example_runtime :: "EntityStatus \<Rightarrow> runtime" where
  "example_runtime st =
     \<lparr>rt_modules = (\<lambda>action. Inr (\<lambda>ps. if action = ''test.boom''
                                        then Raises (OtherException ''boom'')
                                        else ReturnsJobResponse (response_with st))),
      rt_service_job_finished = (\<lambda>job. None),
      rt_str = (\<lambda>e. case e of OtherException m \<Rightarrow> m | _ \<Rightarrow> [])\<rparr>"

definition boom_methods :: AgentMethods where
  "boom_methods = example_methods\<lparr>m_job_start := basic_method\<lparr>am_method := ''test.boom''\<rparr>\<rparr>"

text \<open>A parameter set, update payloads and a custom key for evaluating the model.\<close>

definition example_definitions :: definitions where
  "example_definitions =
     [''parameter1'' \<mapsto> \<lparr>p_name = ''parameter1'', p_value = Some ''value1'',
                          p_description = None, p_is_environment = True\<rparr>,
      ''parameter2'' \<mapsto> \<lparr>p_name = ''parameter2'', p_value = Some ''value2'',
                          p_description = None, p_is_environment = False\<rparr>]"

definition example_agent :: Agent where
  "example_agent =
     \<lparr>a_name = ''agentName'', a_methods = example_methods,
      a_parameters_setup = Some example_definitions, a_server_encrypted_parameters = None\<rparr>"

definition example_param_world :: param_world where
  "example_param_world = \<lparr>pw_agent = example_agent, pw_environ = Map.empty\<rparr>"

definition invalid_only :: "param_update list" where
  "invalid_only =
     [\<lparr>pu_name = ''invalid_parameter'', pu_value = ''invalid_value1'', pu_is_environment = False\<rparr>]"

definition valid_then_invalid :: "param_update list" where
  "valid_then_invalid =
     [\<lparr>pu_name = ''parameter1'', pu_value = ''new_value1'', pu_is_environment = False\<rparr>,
      \<lparr>pu_name = ''invalid_parameter'', pu_value = ''x'', pu_is_environment = False\<rparr>]"

definition valid_updates :: "param_update list" where
  "valid_updates =
     [\<lparr>pu_name = ''parameter1'', pu_value = ''new_value1'', pu_is_environment = True\<rparr>,
      \<lparr>pu_name = ''parameter2'', pu_value = ''new_value2'', pu_is_environment = False\<rparr>]"

definition slug_with_newline :: string where
  "slug_with_newline = ''a'' @ [newline]"

text \<open>The read \<^verbatim>\<open>parameters_setup.definitions[n].value\<close> used by the tests.\<close>

definition definition_value :: "Agent \<Rightarrow> string \<Rightarrow> py_error + string option" where
  "definition_value a n =
     (case a_parameters_setup a of
        None \<Rightarrow> Inl (TypeError ''NoneType object has no attribute definitions'')
      | Some defs \<Rightarrow>
          (case defs n of
             None \<Rightarrow> Inl (KeyError n)
           | Some p \<Rightarrow> Inr (p_value p)))"

definition decode_invalid_only :: "string \<Rightarrow> py_error + param_update list" where
  "decode_invalid_only enc = Inr invalid_only"

definition decode_valid_then_invalid :: "string \<Rightarrow> py_error + param_update list" where
  "decode_valid_then_invalid enc = Inr valid_then_invalid"

definition decode_valid_updates :: "string \<Rightarrow> py_error + param_update list" where
  "decode_valid_updates enc = Inr valid_updates"

text \<open>A runtime in which every method body raises \<^verbatim>\<open>SystemExit\<close>.\<close>

definition exit_runtime :: runtime where
  "exit_runtime =
     \<lparr>rt_modules = (\<lambda>action. Inr (\<lambda>ps. Raises (BaseOnly ''SystemExit''))),
      rt_service_job_finished = (\<lambda>job. None),
      rt_str = (\<lambda>e. [])\<rparr>"

section \<open>Properties of the lifecycle engine\<close>

lemma apply_event_rows:
  "apply_event STOPPED START_WORK = Inr IN_PROGRESS"
  "apply_event IN_PROGRESS INPUT_REQUESTED = Inr AWAITING"
  "apply_event AWAITING INPUT_RECEIVED = Inr IN_PROGRESS"
  "apply_event IN_PROGRESS SUCCESSFULLY_DONE = Inr COMPLETED"
  "apply_event IN_PROGRESS FAILED_EVENT = Inr FAILED"
  "apply_event IN_PROGRESS CANCEL_REQUESTED = Inr CANCELLING"
  "apply_event CANCELLING CANCELLED_EVENT = Inr CANCELLED"
  by (simp_all add: apply_event_def transition_table_def)

lemma apply_event_absent:
  "(s, e) \<notin> {(STOPPED, START_WORK), (IN_PROGRESS, INPUT_REQUESTED),
      (AWAITING, INPUT_RECEIVED), (IN_PROGRESS, SUCCESSFULLY_DONE),
      (IN_PROGRESS, FAILED_EVENT), (IN_PROGRESS, CANCEL_REQUESTED),
      (CANCELLING, CANCELLED_EVENT)}
   \<Longrightarrow> apply_event s e = Inl (TransitionError s e)"
  by (cases s; cases e) (simp_all add: apply_event_def transition_table_def)

text \<open>
  Claim C1. The engine is a function of the pair (current status, event). On the seven
  pairs of the table it returns exactly the tabulated target status; on every other pair
  it fails with the \<open>TransitionError\<close> that carries both inputs. In particular nothing
  leaves \<open>COMPLETED\<close>, \<open>FAILED\<close> or \<open>CANCELLED\<close>.
\<close>

theorem lifecycle_table_exact:
  "apply_event STOPPED START_WORK = Inr IN_PROGRESS
   \<and> apply_event IN_PROGRESS INPUT_REQUESTED = Inr AWAITING
   \<and> apply_event AWAITING INPUT_RECEIVED = Inr IN_PROGRESS
   \<and> apply_event IN_PROGRESS SUCCESSFULLY_DONE = Inr COMPLETED
   \<and> apply_event IN_PROGRESS FAILED_EVENT = Inr FAILED
   \<and> apply_event IN_PROGRESS CANCEL_REQUESTED = Inr CANCELLING
   \<and> apply_event CANCELLING CANCELLED_EVENT = Inr CANCELLED
   \<and> (\<forall>s e. (s, e) \<notin> {(STOPPED, START_WORK), (IN_PROGRESS, INPUT_REQUESTED),
              (AWAITING, INPUT_RECEIVED), (IN_PROGRESS, SUCCESSFULLY_DONE),
              (IN_PROGRESS, FAILED_EVENT), (IN_PROGRESS, CANCEL_REQUESTED),
              (CANCELLING, CANCELLED_EVENT)}
         \<longrightarrow> apply_event s e = Inl (TransitionError s e))
   \<and> (\<forall>s e. s \<in> {COMPLETED, FAILED, CANCELLED}
         \<longrightarrow> apply_event s e = Inl (TransitionError s e))"
proof -
  have terminal: "apply_event s e = Inl (TransitionError s e)"
    if "s \<in> {COMPLETED, FAILED, CANCELLED}" for s e
    using that by (intro apply_event_absent) auto
  show ?thesis
    using apply_event_rows apply_event_absent terminal by blast
qed

theorem lifecycle_table_exact_witness:
  "(COMPLETED, START_WORK) \<notin> {(STOPPED, START_WORK), (IN_PROGRESS, INPUT_REQUESTED),
              (AWAITING, INPUT_RECEIVED), (IN_PROGRESS, SUCCESSFULLY_DONE),
              (IN_PROGRESS, FAILED_EVENT), (IN_PROGRESS, CANCEL_REQUESTED),
              (CANCELLING, CANCELLED_EVENT)}
   \<and> COMPLETED \<in> {COMPLETED, FAILED, CANCELLED}
   \<and> apply_event COMPLETED START_WORK = Inl (TransitionError COMPLETED START_WORK)
   \<and> apply_event AWAITING START_WORK = Inl (TransitionError AWAITING START_WORK)"
proof -
  have a: "(AWAITING, START_WORK) \<notin> {(STOPPED, START_WORK), (IN_PROGRESS, INPUT_REQUESTED),
              (AWAITING, INPUT_RECEIVED), (IN_PROGRESS, SUCCESSFULLY_DONE),
              (IN_PROGRESS, FAILED_EVENT), (IN_PROGRESS, CANCEL_REQUESTED),
              (CANCELLING, CANCELLED_EVENT)}"
    by simp
  have c: "COMPLETED \<in> {COMPLETED, FAILED, CANCELLED}" by simp
  from lifecycle_table_exact a c show ?thesis by simp
qed

section \<open>Properties of the Case update log\<close>

lemma do_op_updates:
  "c_updates (cw_case (do_op x w)) = c_updates (cw_case w)
   \<or> c_updates (cw_case (do_op x w)) = c_updates (cw_case w) @ [op_ref x]"
  by (cases x)
     (auto simp: update_def human_input_def send_update_case_def Let_def split: option.splits)

lemma do_op_account:
  "c_account (cw_case (do_op x w)) = c_account (cw_case w)"
  by (cases x)
     (auto simp: update_def human_input_def send_update_case_def Let_def split: option.splits)

lemma do_op_quiet:
  "(\<forall>m. c_account (cw_case w) m = None) \<Longrightarrow>
   c_updates (cw_case (do_op x w)) = c_updates (cw_case w) @ [op_ref x]"
  by (cases x)
     (auto simp: update_def human_input_def send_update_case_def Let_def split: option.splits)

lemma do_op_heap_other:
  "r \<noteq> op_ref x \<Longrightarrow> cw_heap (do_op x w) r = cw_heap w r"
  by (cases x)
     (auto simp: update_def human_input_def send_update_case_def Let_def split: option.splits)

lemma do_op_heap_self:
  "u_index (cw_heap (do_op x w) (op_ref x)) = Some (int (length (c_updates (cw_case w))) + 1)"
  by (cases x)
     (auto simp: update_def human_input_def send_update_case_def Let_def split: option.splits)

lemma do_op_indices_ok:
  assumes "indices_ok w" and "op_ref x \<notin> set (c_updates (cw_case w))"
  shows "indices_ok (do_op x w)"
proof -
  let ?us = "c_updates (cw_case w)"
  have old: "u_index (cw_heap (do_op x w) (?us ! i)) = Some (int i + 1)" if "i < length ?us" for i
  proof -
    have "?us ! i \<noteq> op_ref x" using that assms(2) by (metis nth_mem)
    then show ?thesis using assms(1) that by (simp add: do_op_heap_other indices_ok_def)
  qed
  from do_op_updates [of x w] show ?thesis
  proof
    assume "c_updates (cw_case (do_op x w)) = ?us"
    then show ?thesis using old by (simp add: indices_ok_def)
  next
    assume app: "c_updates (cw_case (do_op x w)) = ?us @ [op_ref x]"
    show ?thesis
      unfolding indices_ok_def app
    proof (intro allI impI)
      fix i assume "i < length (?us @ [op_ref x])"
      then consider "i < length ?us" | "i = length ?us" by fastforce
      then show "u_index (cw_heap (do_op x w) ((?us @ [op_ref x]) ! i)) = Some (int i + 1)"
      proof cases
        case 1 then show ?thesis using old by (simp add: nth_append)
      next
        case 2 then show ?thesis by (simp add: do_op_heap_self)
      qed
    qed
  qed
qed

lemma run_ops_Cons: "run_ops (x # xs) w = run_ops xs (do_op x w)"
  by (simp add: run_ops_def)

lemma run_ops_indices_ok:
  "indices_ok w \<Longrightarrow> distinct (map op_ref ops)
   \<Longrightarrow> set (map op_ref ops) \<inter> set (c_updates (cw_case w)) = {}
   \<Longrightarrow> indices_ok (run_ops ops w)"
proof (induction ops arbitrary: w)
  case Nil
  then show ?case by (simp add: run_ops_def)
next
  case (Cons x xs)
  have ok: "indices_ok (do_op x w)"
    using Cons.prems by (intro do_op_indices_ok) auto
  have "set (c_updates (cw_case (do_op x w))) \<subseteq> insert (op_ref x) (set (c_updates (cw_case w)))"
    using do_op_updates [of x w] by auto
  moreover have "op_ref x \<notin> set (map op_ref xs)"
    and "set (map op_ref xs) \<inter> set (c_updates (cw_case w)) = {}"
    using Cons.prems by auto
  ultimately have disj: "set (map op_ref xs) \<inter> set (c_updates (cw_case (do_op x w))) = {}"
    by blast
  show ?case
    unfolding run_ops_Cons using Cons.IH [OF ok _ disj] Cons.prems by simp
qed

lemma run_ops_quiet:
  "(\<forall>m. c_account (cw_case w) m = None)
   \<Longrightarrow> c_updates (cw_case (run_ops ops w)) = c_updates (cw_case w) @ map op_ref ops"
proof (induction ops arbitrary: w)
  case Nil
  then show ?case by (simp add: run_ops_def)
next
  case (Cons x xs)
  have "\<forall>m. c_account (cw_case (do_op x w)) m = None"
    using Cons.prems by (simp add: do_op_account)
  from Cons.IH [OF this] show ?case
    unfolding run_ops_Cons using Cons.prems by (simp add: do_op_quiet)
qed

text \<open>
  Claim C4, as amended. On a Case whose update list is empty, after any run of
  \<^verbatim>\<open>update\<close> and \<^verbatim>\<open>human_input\<close> calls on pairwise distinct update objects, the
  object recorded at position \<open>i\<close> (0-based) carries index \<open>i + 1\<close>, whatever the objects
  held before (content and caller-supplied index included) and whatever the Account
  does; and when the Account never raises, the recorded objects are exactly the ones
  passed, in call order.
\<close>

theorem case_update_indices:
  assumes "c_updates (cw_case w) = []" and "distinct (map op_ref ops)"
  shows "(\<forall>i < length (c_updates (cw_case (run_ops ops w))).
            u_index (cw_heap (run_ops ops w) (c_updates (cw_case (run_ops ops w)) ! i))
              = Some (int i + 1))
         \<and> ((\<forall>m. c_account (cw_case w) m = None)
              \<longrightarrow> c_updates (cw_case (run_ops ops w)) = map op_ref ops)"
proof -
  have "indices_ok w" using assms(1) by (simp add: indices_ok_def)
  then have "indices_ok (run_ops ops w)"
    using assms by (intro run_ops_indices_ok) auto
  then show ?thesis
    using run_ops_quiet [of w ops] assms(1) by (simp add: indices_ok_def)
qed

text \<open>
  The claim as stated also covers a caller who passes the same object twice. The second
  call rewrites the index of the shared object, so the first recorded update then reads
  index 2, not 1.
\<close>

theorem case_update_indices_counterexample:
  "c_updates (cw_case example_world) = []
   \<and> c_updates (cw_case (run_ops [Update 0, Update 0] example_world)) = [0, 0]
   \<and> u_index (cw_heap (run_ops [Update 0, Update 0] example_world)
        (c_updates (cw_case (run_ops [Update 0, Update 0] example_world)) ! 0)) = Some 2
   \<and> u_index (cw_heap (run_ops [Update 0, Update 0] example_world)
        (c_updates (cw_case (run_ops [Update 0, Update 0] example_world)) ! 0)) \<noteq> Some (int 0 + 1)"
  by (simp add: run_ops_def update_def example_world_def example_case_def quiet_account_def
      send_update_case_def blank_update_def CaseNodeUpdate_init_def Let_def case_ref_def)

theorem case_update_indices_witness:
  "c_updates (cw_case example_world) = [] \<and> distinct (map op_ref [Update 0, HumanInput 1 ''hi''])
   \<and> (\<forall>m. c_account (cw_case example_world) m = None)
   \<and> c_updates (cw_case (run_ops [Update 0, HumanInput 1 ''hi''] example_world)) = [0, 1]
   \<and> u_index (cw_heap (run_ops [Update 0, HumanInput 1 ''hi''] example_world) 0) = Some 1
   \<and> u_index (cw_heap (run_ops [Update 0, HumanInput 1 ''hi''] example_world) 1) = Some 2"
proof -
  let ?w = "run_ops [Update 0, HumanInput 1 ''hi''] example_world"
  have a: "c_updates (cw_case example_world) = []"
    by (simp add: example_world_def example_case_def)
  have d: "distinct (map op_ref [Update 0, HumanInput 1 ''hi''])" by simp
  have q: "\<forall>m. c_account (cw_case example_world) m = None"
    by (simp add: example_world_def example_case_def quiet_account_def)
  note main = case_update_indices [OF a d]
  from main q have us: "c_updates (cw_case ?w) = [0, 1]" by simp
  from main have ix: "i < length (c_updates (cw_case ?w)) \<Longrightarrow>
      u_index (cw_heap ?w (c_updates (cw_case ?w) ! i)) = Some (int i + 1)" for i
    by blast
  from ix [of 0] ix [of 1] have "u_index (cw_heap ?w 0) = Some 1" and "u_index (cw_heap ?w 1) = Some 2"
    unfolding us by simp_all
  with a d q us show ?thesis by blast
qed

section \<open>Properties of \<^verbatim>\<open>Case.close\<close>\<close>

text \<open>What \<^verbatim>\<open>close\<close> stores as the total cost, and what it does on a Case in progress.\<close>

lemma close_total_cost:
  "c_total_cost (cw_case (snd (close res fc now w))) =
     (case fc of
        Some x \<Rightarrow> if x \<noteq> 0 then x else calculated_cost (cw_heap w) (cw_case w)
      | None \<Rightarrow> calculated_cost (cw_heap w) (cw_case w))"
  by (simp add: close_def handle_event_def Let_def split: sum.splits prod.splits)

lemma close_in_progress:
  assumes "c_status (cw_case w) = IN_PROGRESS"
  shows "c_status (cw_case (snd (close res fc now w))) = COMPLETED"
    and "c_final_delivery (cw_case (snd (close res fc now w))) = Some res"
    and "c_finished_at (cw_case (snd (close res fc now w))) = Some now"
  using assms
  by (simp_all add: close_def handle_event_def apply_event_rows Let_def split: prod.splits)

text \<open>
  Claim C8. An explicit final cost is to be stored as the total cost, a final cost of
  \<open>0.0\<close> included. The code tests the argument for truthiness, so on a Case in progress
  with one recorded update of cost 5, closing with final cost 0 stores the calculated
  sum 5 instead of 0.
\<close>

theorem close_zero_final_cost:
  "fst (close [(''ok'', ''true'')] (Some 0) 42 cost5_world) = None
   \<and> c_status (cw_case (snd (close [(''ok'', ''true'')] (Some 0) 42 cost5_world))) = COMPLETED
   \<and> c_total_cost (cw_case (snd (close [(''ok'', ''true'')] (Some 0) 42 cost5_world))) = 5"
  by (simp add: close_def handle_event_def apply_event_rows Let_def cost5_world_def
      example_case_def calculated_cost_def cost_or_zero_def CaseNodeUpdate_init_def
      send_update_case_def quiet_account_def split: prod.splits)

text \<open>
  Claim C10. \<^verbatim>\<open>Case.close\<close> leaves the update list and every stored update object as
  they were, whether it returns or raises; the final update (index \<open>len(updates) + 1\<close>,
  payload the result, \<open>is_final\<close> set) is only handed to the Account, once, when the call
  returns normally.
\<close>

theorem close_keeps_updates:
  "c_updates (cw_case (snd (close res fc now w))) = c_updates (cw_case w)
   \<and> cw_heap (snd (close res fc now w)) = cw_heap w
   \<and> cw_sent (snd (close res fc now w)) =
       (if fst (close res fc now w) = None
        then cw_sent w @
          [SendUpdateCase (case_ref (cw_case w))
             \<lparr>u_index = Some (int (length (c_updates (cw_case w))) + 1), u_cost = None,
              u_name = None, u_payload = Some res, u_is_final = True, u_question = None\<rparr>]
        else cw_sent w)"
  by (auto simp: close_def handle_event_def send_update_case_def case_ref_def Let_def
      CaseNodeUpdate_init_def split: sum.splits prod.splits option.splits)

theorem close_keeps_updates_witness:
  "fst (close [(''ok'', ''true'')] None 42 cost5_world) = None
   \<and> c_updates (cw_case (snd (close [(''ok'', ''true'')] None 42 cost5_world))) = [0]
   \<and> cw_heap (snd (close [(''ok'', ''true'')] None 42 cost5_world)) = cw_heap cost5_world
   \<and> cw_sent (snd (close [(''ok'', ''true'')] None 42 cost5_world)) =
       [SendUpdateCase ''j1-c1''
          \<lparr>u_index = Some 2, u_cost = None, u_name = None,
           u_payload = Some [(''ok'', ''true'')], u_is_final = True, u_question = None\<rparr>]"
proof -
  have ok: "fst (close [(''ok'', ''true'')] None 42 cost5_world) = None"
    by (simp add: close_def handle_event_def apply_event_rows Let_def cost5_world_def
      example_case_def send_update_case_def quiet_account_def split: prod.splits)
  have w: "c_updates (cw_case cost5_world) = [0]" "cw_sent cost5_world = []"
    "case_ref (cw_case cost5_world) = ''j1-c1''"
    by (simp_all add: cost5_world_def example_case_def case_ref_def)
  from close_keeps_updates [of "[(''ok'', ''true'')]" None 42 cost5_world] ok w
  show ?thesis by simp
qed

section \<open>Properties of \<^verbatim>\<open>Agent.job_start\<close>\<close>

lemma merged_params_add_response:
  "merged_params action job_fields context (add_response r job)
     = merged_params action job_fields context job"
  by (simp add: merged_params_def add_response_def)

lemma send_start_confirmation_job:
  "jw_job (snd (send_start_confirmation server w)) = jw_job w
   \<and> jw_finished (snd (send_start_confirmation server w)) = jw_finished w
   \<and> jw_invoked (snd (send_start_confirmation server w)) = jw_invoked w"
  by (simp add: send_start_confirmation_def Let_def split: option.splits)

text \<open>
  Claim C2, as amended. When the start confirmation went through, the descriptor was
  found, the guard let the dispatch pass and the resolved method body raises an
  exception \<open>e\<close> that is an instance of \<^verbatim>\<open>Exception\<close>,
  then \<^verbatim>\<open>job_start\<close> appends to the Job, after the starting marker, exactly one
  synthesized response with status \<open>FAILED\<close> whose error field holds \<open>e\<close>, does not call
  the job-finished hook, and re-raises \<open>e\<close> itself to the caller.
\<close>

theorem job_start_records_and_reraises:
  assumes sent: "fst (send_start_confirmation server w) = None"
    and action: "lookup_action methods method_name = Inr action"
    and sync: "\<not> am_is_async (m_job_start methods)"
    and resolved: "rt_modules rt (am_method action) = Inr body"
    and raises: "body (merged_params action job_fields context (jw_job w)) = Raises e"
    and exc: "is_Exception e"
  shows "fst (job_start rt methods server method_name job_fields context w) = Some e
     \<and> j_responses (jw_job (snd (job_start rt methods server method_name job_fields context w)))
         = j_responses (jw_job w) @
           [\<lparr>jr_job_id = j_id (jw_job w), jr_status = IN_PROGRESS,
             jr_message = ''Starting job execution'', jr_payload = None, jr_error = None\<rparr>,
            \<lparr>jr_job_id = j_id (jw_job w), jr_status = FAILED,
             jr_message = ''Job execution failed: '' @ rt_str rt e, jr_payload = None,
             jr_error = Some e\<rparr>]
     \<and> jw_finished (snd (job_start rt methods server method_name job_fields context w))
         = jw_finished w"
proof -
  obtain w0 where w0: "send_start_confirmation server w = (None, w0)"
    using sent by (cases "send_start_confirmation server w") auto
  have same: "jw_job w0 = jw_job w" "jw_finished w0 = jw_finished w"
    using send_start_confirmation_job [of server w] w0 by simp_all
  let ?w1 = "w0\<lparr>jw_job := add_response (starting_response (jw_job w0)) (jw_job w0)\<rparr>"
  have ps: "merged_params action job_fields context (jw_job ?w1)
              = merged_params action job_fields context (jw_job w)"
    by (simp add: merged_params_add_response same)
  have tried: "job_start_try rt methods (am_method action)
               (merged_params action job_fields context (jw_job ?w1)) ?w1
             = (Some e, ?w1\<lparr>jw_invoked := jw_invoked ?w1 @ [am_method action]\<rparr>)"
    unfolding ps using sync resolved raises
    by (simp add: job_start_try_def execute_def)
  show ?thesis
    using w0 action exc same tried
    by (simp add: job_start_def Let_def add_response_def starting_response_def
        failed_response_def)
qed


text \<open>
  The claim as stated covers every exception a body can raise. The handler is
  \<^verbatim>\<open>except Exception\<close>: a body that raises \<^verbatim>\<open>SystemExit\<close> is entered, the exception
  reaches the caller, and the Job's log ends with the starting marker, with no failed
  response recorded.
\<close>

theorem job_start_records_and_reraises_counterexample:
  "fst (job_start exit_runtime example_methods no_account_server ''job_start'' []
          example_context example_job_world) = Some (BaseOnly ''SystemExit'')
   \<and> jw_invoked (snd (job_start exit_runtime example_methods no_account_server ''job_start'' []
          example_context example_job_world)) = [''test.method'']
   \<and> j_responses (jw_job (snd (job_start exit_runtime example_methods no_account_server
          ''job_start'' [] example_context example_job_world)))
       = [starting_response example_job]
   \<and> map jr_status (j_responses (jw_job (snd (job_start exit_runtime example_methods
          no_account_server ''job_start'' [] example_context example_job_world))))
       = [IN_PROGRESS]"
  by (simp add: job_start_def job_start_try_def execute_def lookup_action_def
      send_start_confirmation_def no_account_server_def example_methods_def
      basic_method_def exit_runtime_def example_job_world_def example_job_def Let_def
      add_response_def starting_response_def)

theorem job_start_records_and_reraises_witness:
  "fst (send_start_confirmation no_account_server example_job_world) = None
   \<and> lookup_action boom_methods ''job_start'' = Inr (m_job_start boom_methods)
   \<and> \<not> am_is_async (m_job_start boom_methods)
   \<and> is_Exception (OtherException ''boom'')
   \<and> fst (job_start (example_runtime COMPLETED) boom_methods no_account_server ''job_start'' []
            example_context example_job_world) = Some (OtherException ''boom'')
   \<and> map jr_status (j_responses (jw_job (snd (job_start (example_runtime COMPLETED) boom_methods
            no_account_server ''job_start'' [] example_context example_job_world))))
       = [IN_PROGRESS, FAILED]
   \<and> map jr_error (j_responses (jw_job (snd (job_start (example_runtime COMPLETED) boom_methods
            no_account_server ''job_start'' [] example_context example_job_world))))
       = [None, Some (OtherException ''boom'')]"
proof -
  have h1: "fst (send_start_confirmation no_account_server example_job_world) = None"
    by (simp add: send_start_confirmation_def no_account_server_def)
  have h2: "lookup_action boom_methods ''job_start'' = Inr (m_job_start boom_methods)"
    by (simp add: lookup_action_def)
  have h3: "\<not> am_is_async (m_job_start boom_methods)"
    by (simp add: boom_methods_def basic_method_def)
  have h4: "rt_modules (example_runtime COMPLETED) (am_method (m_job_start boom_methods))
              = Inr (\<lambda>ps. Raises (OtherException ''boom''))"
    by (simp add: example_runtime_def boom_methods_def)
  have h5: "(\<lambda>ps. Raises (OtherException ''boom''))
              (merged_params (m_job_start boom_methods) [] example_context
                 (jw_job example_job_world)) = Raises (OtherException ''boom'')"
    by simp
  have h6: "is_Exception (OtherException ''boom'')" by simp
  have old: "j_responses (jw_job example_job_world) = []"
    by (simp add: example_job_world_def example_job_def)
  from job_start_records_and_reraises [OF h1 h2 h3 h4 h5 h6] h1 h2 h3 h6 old
  show ?thesis by simp
qed

text \<open>
  Claim C3. When the dispatched method returns a response \<open>r\<close>, its status alone decides
  what follows the starting marker: for \<open>COMPLETED\<close>, \<open>FAILED\<close>, \<open>CANCELLED\<close> and
  \<open>CANCELLING\<close> the response is appended and the job-finished hook is called once with
  the Job (if the hook itself raises, that failure is recorded and re-raised like any
  other); for \<open>AWAITING\<close> the response is appended and the hook is not called; for any
  other status nothing is appended and the hook is not called.
\<close>

theorem job_start_classifies_response:
  assumes sent: "fst (send_start_confirmation server w) = None"
    and action: "lookup_action methods method_name = Inr action"
    and sync: "\<not> am_is_async (m_job_start methods)"
    and resolved: "rt_modules rt (am_method action) = Inr body"
    and returns: "body (merged_params action job_fields context (jw_job w)) = ReturnsJobResponse r"
  shows "let res = job_start rt methods server method_name job_fields context w;
             started = j_responses (jw_job w) @ [starting_response (jw_job w)];
             job' = (jw_job w)\<lparr>j_responses := started @ [r]\<rparr>
         in (if jr_status r = COMPLETED \<or> jr_status r = FAILED \<or> jr_status r = CANCELLED
                \<or> jr_status r = CANCELLING
             then fst res = rt_service_job_finished rt job'
                  \<and> jw_finished (snd res) = jw_finished w @ [job']
                  \<and> j_responses (jw_job (snd res)) =
                      started @ [r] @
                      (case rt_service_job_finished rt job' of
                         None \<Rightarrow> []
                       | Some e \<Rightarrow> if is_Exception e then [failed_response rt (jw_job w) e] else [])
             else if jr_status r = AWAITING
             then fst res = None \<and> jw_finished (snd res) = jw_finished w
                  \<and> j_responses (jw_job (snd res)) = started @ [r]
             else fst res = None \<and> jw_finished (snd res) = jw_finished w
                  \<and> j_responses (jw_job (snd res)) = started)"
proof -
  obtain w0 where w0: "send_start_confirmation server w = (None, w0)"
    using sent by (cases "send_start_confirmation server w") auto
  have same: "jw_job w0 = jw_job w" "jw_finished w0 = jw_finished w"
    using send_start_confirmation_job [of server w] w0 by simp_all
  let ?w1 = "w0\<lparr>jw_job := add_response (starting_response (jw_job w0)) (jw_job w0)\<rparr>"
  have ps: "merged_params action job_fields context (jw_job ?w1)
              = merged_params action job_fields context (jw_job w)"
    by (simp add: merged_params_add_response same)
  have ex: "execute rt (am_method action)
              (merged_params action job_fields context (jw_job ?w1)) (jw_invoked ?w1)
            = (Inr r, jw_invoked ?w1 @ [am_method action])"
    unfolding ps using resolved returns by (simp add: execute_def)
  show ?thesis
    using w0 action sync same ex
    by (cases "rt_service_job_finished rt
                 ((jw_job w)\<lparr>j_responses := j_responses (jw_job w) @ [starting_response (jw_job w), r]\<rparr>)")
       (simp_all add: job_start_def job_start_try_def Let_def add_response_def
          failed_response_def)
qed

theorem job_start_classifies_response_witness:
  "fst (send_start_confirmation no_account_server example_job_world) = None
   \<and> lookup_action example_methods ''job_start'' = Inr basic_method
   \<and> \<not> am_is_async (m_job_start example_methods)
   \<and> fst (job_start (example_runtime AWAITING) example_methods no_account_server ''job_start'' []
            example_context example_job_world) = None
   \<and> jw_finished (snd (job_start (example_runtime AWAITING) example_methods no_account_server
            ''job_start'' [] example_context example_job_world)) = []
   \<and> j_responses (jw_job (snd (job_start (example_runtime AWAITING) example_methods
            no_account_server ''job_start'' [] example_context example_job_world)))
       = [starting_response example_job, response_with AWAITING]"
proof -
  have h1: "fst (send_start_confirmation no_account_server example_job_world) = None"
    by (simp add: send_start_confirmation_def no_account_server_def)
  have h2: "lookup_action example_methods ''job_start'' = Inr basic_method"
    by (simp add: lookup_action_def example_methods_def)
  have h3: "\<not> am_is_async (m_job_start example_methods)"
    by (simp add: example_methods_def basic_method_def)
  have h4: "rt_modules (example_runtime AWAITING) (am_method basic_method)
              = Inr (\<lambda>ps. ReturnsJobResponse (response_with AWAITING))"
    by (simp add: example_runtime_def basic_method_def)
  have h5: "(\<lambda>ps. ReturnsJobResponse (response_with AWAITING))
              (merged_params basic_method [] example_context (jw_job example_job_world))
            = ReturnsJobResponse (response_with AWAITING)"
    by simp
  have w: "jw_job example_job_world = example_job" "jw_finished example_job_world = []"
    "j_responses example_job = []" "jr_status (response_with AWAITING) = AWAITING"
    by (simp_all add: example_job_world_def example_job_def response_with_def)
  from job_start_classifies_response [OF h1 h2 h3 h4 h5] h1 h2 h3 w
  show ?thesis by (simp add: Let_def)
qed

text \<open>
  Claim C9. Dispatching a descriptor with \<open>is_async\<close> set is to fail with
  \<^verbatim>\<open>NotImplementedError\<close> before its body runs. The guard reads the \<open>job_start\<close>
  descriptor's flag even when a custom entry is dispatched: with a synchronous
  \<open>job_start\<close> and an asynchronous custom entry \<open>backup\<close>, dispatching \<open>backup\<close> enters
  the method body, appends its response and returns normally.
\<close>

theorem job_start_async_custom_runs:
  "lookup_action example_methods ''backup'' = Inr backup_method
   \<and> am_is_async backup_method
   \<and> fst (job_start (example_runtime COMPLETED) example_methods no_account_server ''backup'' []
            example_context example_job_world) = None
   \<and> jw_invoked (snd (job_start (example_runtime COMPLETED) example_methods no_account_server
            ''backup'' [] example_context example_job_world)) = [''tasks.backup'']
   \<and> j_responses (jw_job (snd (job_start (example_runtime COMPLETED) example_methods
            no_account_server ''backup'' [] example_context example_job_world)))
       = [starting_response example_job, response_with COMPLETED]"
  by (simp add: job_start_def job_start_try_def execute_def lookup_action_def
      send_start_confirmation_def no_account_server_def example_methods_def backup_method_def
      basic_method_def example_runtime_def example_job_world_def Let_def add_response_def
      response_with_def example_job_def)

text \<open>When the \<open>job_start\<close> descriptor is asynchronous, every dispatch is refused.\<close>

lemma job_start_async_guard:
  assumes "fst (send_start_confirmation server w) = None"
    and "lookup_action methods method_name = Inr action"
    and "am_is_async (m_job_start methods)"
  shows "fst (job_start rt methods server method_name job_fields context w)
           = Some (NotImplementedError ''[Agent job_start] Async job execution is not implemented'')"
    and "jw_invoked (snd (job_start rt methods server method_name job_fields context w))
           = jw_invoked w"
    and "j_responses (jw_job (snd (job_start rt methods server method_name job_fields context w)))
           = j_responses (jw_job w) @
             [starting_response (jw_job w),
              failed_response rt (jw_job w)
                (NotImplementedError ''[Agent job_start] Async job execution is not implemented'')]"
proof -
  obtain w0 where w0: "send_start_confirmation server w = (None, w0)"
    using assms(1) by (cases "send_start_confirmation server w") auto
  have same: "jw_job w0 = jw_job w" "jw_invoked w0 = jw_invoked w"
    using send_start_confirmation_job [of server w] w0 by simp_all
  show "fst (job_start rt methods server method_name job_fields context w)
           = Some (NotImplementedError ''[Agent job_start] Async job execution is not implemented'')"
    and "jw_invoked (snd (job_start rt methods server method_name job_fields context w))
           = jw_invoked w"
    and "j_responses (jw_job (snd (job_start rt methods server method_name job_fields context w)))
           = j_responses (jw_job w) @
             [starting_response (jw_job w),
              failed_response rt (jw_job w)
                (NotImplementedError ''[Agent job_start] Async job execution is not implemented'')]"
    using w0 assms(2,3) same
    by (simp_all add: job_start_def job_start_try_def Let_def add_response_def
        failed_response_def)
qed


section \<open>Properties of the remote parameter update\<close>

lemma update_values_dom:
  "update_values_from_server recs (defs, env) = Inr (defs', env') \<Longrightarrow> dom defs' = dom defs"
proof (induction recs arbitrary: defs env)
  case Nil
  then show ?case by simp
next
  case (Cons x recs)
  show ?case
  proof (cases "defs (pu_name x)")
    case None
    with Cons.prems show ?thesis by simp
  next
    case (Some p)
    define defs1 where "defs1 = defs(pu_name x \<mapsto> p\<lparr>p_value := Some (pu_value x)\<rparr>)"
    define env1 where "env1 = (if pu_is_environment x then env(pu_name x \<mapsto> pu_value x) else env)"
    have "update_values_from_server recs (defs1, env1) = Inr (defs', env')"
      using Cons.prems Some by (simp add: defs1_def env1_def)
    from Cons.IH [OF this] have "dom defs' = dom defs1" .
    also have "dom defs1 = dom defs" using Some by (auto simp: defs1_def)
    finally show ?thesis .
  qed
qed

lemma update_values_unknown:
  "r \<in> set recs \<Longrightarrow> pu_name r \<notin> dom defs \<Longrightarrow>
   \<exists>n. update_values_from_server recs (defs, env) = Inl (ValidationError n)"
proof (induction recs arbitrary: defs env)
  case Nil
  then show ?case by simp
next
  case (Cons x recs)
  show ?case
  proof (cases "defs (pu_name x)")
    case None
    then show ?thesis by simp
  next
    case (Some p)
    define defs1 where "defs1 = defs(pu_name x \<mapsto> p\<lparr>p_value := Some (pu_value x)\<rparr>)"
    define env1 where "env1 = (if pu_is_environment x then env(pu_name x \<mapsto> pu_value x) else env)"
    have step: "update_values_from_server (x # recs) (defs, env)
                  = update_values_from_server recs (defs1, env1)"
      using Some by (simp add: defs1_def env1_def)
    have d: "dom defs1 = dom defs" using Some by (auto simp: defs1_def)
    have "r \<noteq> x" using Cons.prems(2) Some by auto
    then have "r \<in> set recs" using Cons.prems(1) by simp
    moreover have "pu_name r \<notin> dom defs1" using Cons.prems(2) unfolding d .
    ultimately show ?thesis unfolding step by (rule Cons.IH)
  qed
qed

text \<open>
  Claim C5. When the decrypted payload contains a record whose name is not in the
  agent's parameter set, the update fails with a \<open>ValidationError\<close> and the agent's
  parameter definitions are exactly the ones it had before: no parameter is created and
  no value is changed, wherever the unknown record stands in the payload.
\<close>

theorem unknown_parameter_rejected:
  assumes "a_parameters_setup (pw_agent w) = Some defs"
    and "enc \<noteq> []"
    and "decode enc = Inr recs"
    and "r \<in> set recs"
    and "pu_name r \<notin> dom defs"
  shows "failed_with_ValidationError (fst (update_parameters_from_server decode (Some enc) w))
     \<and> a_parameters_setup (pw_agent (snd (update_parameters_from_server decode (Some enc) w)))
         = Some defs"
proof -
  obtain n where "update_values_from_server recs (defs, pw_environ w) = Inl (ValidationError n)"
    using update_values_unknown [OF assms(4,5)] by blast
  then show ?thesis
    using assms(1,2,3) by (simp add: update_parameters_from_server_def Let_def)
qed

theorem unknown_parameter_rejected_witness:
  "a_parameters_setup (pw_agent example_param_world) = Some example_definitions
   \<and> ''invalid_parameter'' \<notin> dom example_definitions
   \<and> failed_with_ValidationError
        (fst (update_parameters_from_server decode_valid_then_invalid (Some ''ciphertext'')
                example_param_world))
   \<and> definition_value
        (pw_agent (snd (update_parameters_from_server decode_valid_then_invalid
           (Some ''ciphertext'') example_param_world)))
        ''parameter1'' = Inr (Some ''value1'')
   \<and> definition_value
        (pw_agent (snd (update_parameters_from_server decode_valid_then_invalid
           (Some ''ciphertext'') example_param_world)))
        ''parameter2'' = Inr (Some ''value2'')
   \<and> definition_value
        (pw_agent (snd (update_parameters_from_server decode_valid_then_invalid
           (Some ''ciphertext'') example_param_world)))
        ''invalid_parameter'' = Inl (KeyError ''invalid_parameter'')"
proof -
  let ?r = "\<lparr>pu_name = ''invalid_parameter'', pu_value = ''x'', pu_is_environment = False\<rparr>"
  let ?res = "update_parameters_from_server decode_valid_then_invalid (Some ''ciphertext'')
                example_param_world"
  have h1: "a_parameters_setup (pw_agent example_param_world) = Some example_definitions"
    by (simp add: example_param_world_def example_agent_def)
  have h2: "''ciphertext'' \<noteq> []" by simp
  have h3: "decode_valid_then_invalid ''ciphertext'' = Inr valid_then_invalid"
    by (simp add: decode_valid_then_invalid_def)
  have h4: "?r \<in> set valid_then_invalid"
    by (simp add: valid_then_invalid_def)
  have h5: "pu_name ?r \<notin> dom example_definitions"
    by (simp add: example_definitions_def)
  from unknown_parameter_rejected
         [where decode = decode_valid_then_invalid and enc = "''ciphertext''", OF h1 h2 h3 h4 h5]
  have failed: "failed_with_ValidationError (fst ?res)"
    and stored: "a_parameters_setup (pw_agent (snd ?res)) = Some example_definitions"
    by simp_all
  have "definition_value (pw_agent (snd ?res)) ''parameter1'' = Inr (Some ''value1'')"
    and "definition_value (pw_agent (snd ?res)) ''parameter2'' = Inr (Some ''value2'')"
    and "definition_value (pw_agent (snd ?res)) ''invalid_parameter''
           = Inl (KeyError ''invalid_parameter'')"
    by (simp_all add: definition_value_def stored example_definitions_def)
  with h1 h5 failed show ?thesis by simp
qed

text \<open>
  The two payloads of the repository's test: known names are updated, and a flagged
  record also reaches the environment; a payload with only an unknown name is rejected.
\<close>

lemma known_parameters_updated:
  "fst (update_parameters_from_server decode_valid_updates (Some ''ciphertext'')
          example_param_world) = None"
  "definition_value
     (pw_agent (snd (update_parameters_from_server decode_valid_updates (Some ''ciphertext'')
        example_param_world))) ''parameter1'' = Inr (Some ''new_value1'')"
  "definition_value
     (pw_agent (snd (update_parameters_from_server decode_valid_updates (Some ''ciphertext'')
        example_param_world))) ''parameter2'' = Inr (Some ''new_value2'')"
  "pw_environ (snd (update_parameters_from_server decode_valid_updates (Some ''ciphertext'')
        example_param_world)) ''parameter1'' = Some ''new_value1''"
  "pw_environ (snd (update_parameters_from_server decode_valid_updates (Some ''ciphertext'')
        example_param_world)) ''parameter2'' = None"
  by (simp_all add: update_parameters_from_server_def Let_def example_param_world_def
      example_agent_def example_definitions_def valid_updates_def decode_valid_updates_def
      definition_value_def)

lemma unknown_only_rejected:
  "fst (update_parameters_from_server decode_invalid_only (Some ''ciphertext'')
          example_param_world) = Some (ValidationError ''invalid_parameter'')"
  "a_parameters_setup (pw_agent (snd (update_parameters_from_server decode_invalid_only
     (Some ''ciphertext'') example_param_world))) = Some example_definitions"
  by (simp_all add: update_parameters_from_server_def Let_def example_param_world_def
      example_agent_def example_definitions_def invalid_only_def decode_invalid_only_def)

section \<open>Properties of the custom method key validation\<close>

text \<open>
  The anchored match and the slug grammar agree on every key that does not end in a
  newline; construction succeeds exactly when every key passes the anchored match and
  the length bound; and a rejected key is named in the message of its rule.
\<close>

lemma re_match_anchored_no_newline:
  "key = [] \<or> last key \<noteq> newline \<Longrightarrow> re_match_anchored r key = matches r key"
  by (auto simp: re_match_anchored_def)

lemmas re_defs = re_match_anchored_def slug_pattern_def Plus_def lower_or_digit_def newline_def

lemma check_custom_keys_None:
  "check_custom_keys keys = None \<longleftrightarrow>
     (\<forall>k \<in> set keys. re_match_anchored slug_pattern k \<and> length k \<le> 50)"
  by (induction keys) auto

lemma check_custom_keys_Some:
  "check_custom_keys keys = Some e \<Longrightarrow>
     \<exists>k \<in> set keys. (\<not> re_match_anchored slug_pattern k \<and> e = ValueError (not_a_slug_message k))
        \<or> (re_match_anchored slug_pattern k \<and> 50 < length k \<and> e = ValueError (too_long_message k))"
  by (induction keys) (auto split: if_splits)

lemma AgentMethodsModel_init_succeeds_iff:
  "(\<exists>ms. AgentMethodsModel_init js jp jt chat custom = Inr ms) \<longleftrightarrow>
     (\<forall>d. custom = Some d \<longrightarrow>
        (\<forall>k \<in> set (map fst d). re_match_anchored slug_pattern k \<and> length k \<le> 50))"
proof (cases custom)
  case None
  then show ?thesis by (simp add: AgentMethodsModel_init_def validate_custom_method_keys_def)
next
  case (Some d)
  show ?thesis
  proof (cases "check_custom_keys (map fst d)")
    case None
    then show ?thesis
      using Some check_custom_keys_None [of "map fst d"]
      by (simp add: AgentMethodsModel_init_def validate_custom_method_keys_def)
  next
    case (Some e)
    then obtain msg where "e = ValueError msg"
      using check_custom_keys_Some by blast
    moreover have "d \<noteq> []" using Some by auto
    ultimately show ?thesis
      using \<open>custom = Some d\<close> Some check_custom_keys_None [of "map fst d"]
      by (auto simp: AgentMethodsModel_init_def validate_custom_method_keys_def)
  qed
qed

lemma too_long_key_rejected:
  "50 < length k \<Longrightarrow> check_custom_keys [k] =
     Some (ValueError (if re_match_anchored slug_pattern k then too_long_message k
                       else not_a_slug_message k))"
  by simp

text \<open>The keys listed as accepted and rejected.\<close>

lemma spec_examples_accepted:
  "check_custom_keys [''health-check'', ''a'', ''method-1''] = None"
  by (simp add: re_defs)

lemma spec_examples_rejected:
  "check_custom_keys [''Method-With-Caps''] = Some (ValueError (not_a_slug_message ''Method-With-Caps''))"
  "check_custom_keys [''-lead''] = Some (ValueError (not_a_slug_message ''-lead''))"
  "check_custom_keys [''trail-''] = Some (ValueError (not_a_slug_message ''trail-''))"
  "check_custom_keys [''double--hyphen''] = Some (ValueError (not_a_slug_message ''double--hyphen''))"
  by (simp_all add: re_defs)

text \<open>
  Claim C7. Construction is to succeed exactly when every custom key matches the slug
  grammar and is at most 50 characters long. Because \<^verbatim>\<open>$\<close> also matches before a
  final newline, the key consisting of \<open>a\<close> and a newline is not in the grammar and yet
  the registry is constructed with it.
\<close>

theorem trailing_newline_key_accepted:
  "\<not> matches slug_pattern slug_with_newline
   \<and> length slug_with_newline \<le> 50
   \<and> AgentMethodsModel_init basic_method basic_method basic_method None
        (Some [(slug_with_newline, basic_method)])
       = Inr \<lparr>m_job_start = basic_method, m_job_stop = basic_method,
              m_job_status = basic_method, m_chat = None,
              m_custom = Some [(slug_with_newline, basic_method)]\<rparr>"
  by (simp add: AgentMethodsModel_init_def validate_custom_method_keys_def re_defs
      slug_with_newline_def)

end
